theory Spec2Isabelle
  imports Complex_Main "HOL-Library.Log_Nat"
begin

section \<open>Text as Python's \<open>str\<close> methods read it\<close>

text \<open>
  A Python string is a sequence of code points. The model covers the strings whose code
  points are below 256: a \<^typ>\<open>char\<close> stands for the code point \<^term>\<open>of_char c\<close>.
  On these, \<open>str.strip\<close>, \<open>str.lower\<close> and \<open>str.isdigit\<close> are the following functions
  (the classes are those of the Unicode database for the first 256 code points).
\<close>

definition is_space :: "char \<Rightarrow> bool" where
  "is_space c = ((of_char c :: nat) \<in> {9, 10, 11, 12, 13, 28, 29, 30, 31, 32, 133, 160})"

definition strip :: "string \<Rightarrow> string" where
  "strip s = rev (dropWhile is_space (rev (dropWhile is_space s)))"

definition lower_char :: "char \<Rightarrow> char" where
  "lower_char c =
     (let n = (of_char c :: nat)
      in if (65 \<le> n \<and> n \<le> 90) \<or> (192 \<le> n \<and> n \<le> 222 \<and> n \<noteq> 215)
         then char_of (n + 32) else c)"

definition lower :: "string \<Rightarrow> string" where
  "lower s = map lower_char s"

definition endswith :: "string \<Rightarrow> string \<Rightarrow> bool" where
  "endswith s t = (length t \<le> length s \<and> drop (length s - length t) s = t)"

definition is_decimal :: "char \<Rightarrow> bool" where
  "is_decimal c = (48 \<le> (of_char c :: nat) \<and> (of_char c :: nat) \<le> 57)"

text \<open>\<open>str.isdigit\<close> also accepts the superscript digits (code points 178, 179, 185),
  which \<open>int\<close> does not read as a number.\<close>

definition is_digit_char :: "char \<Rightarrow> bool" where
  "is_digit_char c = (is_decimal c \<or> (of_char c :: nat) \<in> {178, 179, 185})"

definition isdigit :: "string \<Rightarrow> bool" where
  "isdigit s = (s \<noteq> [] \<and> list_all is_digit_char s)"

definition digit_val :: "char \<Rightarrow> int" where
  "digit_val c = int (of_char c) - 48"

definition decimal_value :: "string \<Rightarrow> int" where
  "decimal_value s = foldl (\<lambda>a c. 10 * a + digit_val c) 0 s"

section \<open>Python's \<open>float\<close> and \<open>int\<close>\<close>

datatype py_error = BadParameter string | ValueError | OverflowError | AttributeError

text \<open>
  A Python \<open>float\<close> is an IEEE 754 binary64 number: a finite value is kept as the
  rational it denotes (the two zeros are not told apart: \<open>int\<close> gives 0 on both).
\<close>

datatype pyfloat = Fin rat | PosInf | NegInf | NaN

definition pow2 :: "int \<Rightarrow> rat" where
  "pow2 k = (if 0 \<le> k then 2 ^ nat k else 1 / 2 ^ nat (- k))"

definition pow10 :: "int \<Rightarrow> rat" where
  "pow10 k = (if 0 \<le> k then 10 ^ nat k else 1 / 10 ^ nat (- k))"

text \<open>The binary exponent of a positive rational: \<open>2 ^ e \<le> a < 2 ^ (e + 1)\<close>.\<close>

definition ilog2 :: "rat \<Rightarrow> int" where
  "ilog2 a =
     (let (p, q) = quotient_of a; e = bitlen p - bitlen q
      in if pow2 e \<le> a then e else e - 1)"

definition round_half_even :: "rat \<Rightarrow> int" where
  "round_half_even x =
     (let f = \<lfloor>x\<rfloor>; d = x - of_int f
      in if d < 1 / 2 then f else if 1 / 2 < d then f + 1
         else if even f then f else f + 1)"

text \<open>Rounding to the nearest binary64 number, ties to even: 53 significant bits,
  least exponent -1022 (subnormal numbers below), overflow to infinity.\<close>

definition round_double :: "rat \<Rightarrow> pyfloat" where
  "round_double q =
     (if q = 0 then Fin 0
      else let a = \<bar>q\<bar>;
               e = max (ilog2 a) (- 1022);
               u = pow2 (e - 52);
               r = of_int (round_half_even (a / u)) * u
           in if pow2 1024 \<le> r then (if 0 < q then PosInf else NegInf)
              else Fin (if 0 < q then r else - r))"

definition fsign :: "pyfloat \<Rightarrow> int" where
  "fsign f = (case f of Fin q \<Rightarrow> (if q = 0 then 0 else if 0 < q then 1 else - 1) | PosInf \<Rightarrow> 1 | NegInf \<Rightarrow> - 1 | NaN \<Rightarrow> 0)"

text \<open>The product of two floats.\<close>

definition fmul :: "pyfloat \<Rightarrow> pyfloat \<Rightarrow> pyfloat" where
  "fmul a b =
     (if a = NaN \<or> b = NaN then NaN
      else case (a, b) of
             (Fin x, Fin y) \<Rightarrow> round_double (x * y)
           | _ \<Rightarrow> (let s = fsign a * fsign b
                   in if s = 0 then NaN else if 0 < s then PosInf else NegInf))"

text \<open>\<open>int(f)\<close> truncates towards zero; it raises on an infinity and on a NaN.\<close>

definition trunc :: "rat \<Rightarrow> int" where
  "trunc q = (if 0 \<le> q then \<lfloor>q\<rfloor> else - \<lfloor>- q\<rfloor>)"

definition int_of_float :: "pyfloat \<Rightarrow> py_error + int" where
  "int_of_float f =
     (case f of Fin q \<Rightarrow> Inr (trunc q) | NaN \<Rightarrow> Inl ValueError | _ \<Rightarrow> Inl OverflowError)"

text \<open>\<open>int(s)\<close> on the strings that reach it in \<open>parse_duration\<close>: \<open>s.isdigit()\<close>
  holds there, so \<open>s\<close> has no sign, blank or underscore, and \<open>int\<close> reads it if and
  only if all its characters are decimal digits. (The limit that recent interpreters put
  on the number of digits, 4300 by default, is not modelled: beyond it \<open>int\<close> raises
  \<open>ValueError\<close> as well.)\<close>

definition int_of_digits :: "string \<Rightarrow> py_error + int" where
  "int_of_digits s =
     (if s \<noteq> [] \<and> list_all is_decimal s then Inr (decimal_value s) else Inl ValueError)"

subsection \<open>\<open>float(s)\<close>: the grammar of a floating-point literal\<close>

text \<open>The blanks that \<open>float\<close> skips at both ends (not the separators 28 to 31).\<close>

definition is_float_space :: "char \<Rightarrow> bool" where
  "is_float_space c = ((of_char c :: nat) \<in> {9, 10, 11, 12, 13, 32, 133, 160})"

definition float_strip :: "string \<Rightarrow> string" where
  "float_strip s = rev (dropWhile is_float_space (rev (dropWhile is_float_space s)))"

text \<open>After a first digit: more digits, each possibly after one underscore.\<close>

fun digits_tail :: "string \<Rightarrow> string \<times> string" where
  "digits_tail [] = ([], [])"
| "digits_tail [c] = (if is_decimal c then ([c], []) else ([], [c]))"
| "digits_tail (c # d # cs) =
     (if is_decimal c then (case digits_tail (d # cs) of (ds, r) \<Rightarrow> (c # ds, r))
      else if c = CHR ''_'' \<and> is_decimal d
           then (case digits_tail cs of (ds, r) \<Rightarrow> (d # ds, r))
           else ([], c # d # cs))"

definition digitpart :: "string \<Rightarrow> (string \<times> string) option" where
  "digitpart t =
     (case t of
        [] \<Rightarrow> None
      | c # cs \<Rightarrow> if is_decimal c
                 then (case digits_tail cs of (ds, r) \<Rightarrow> Some (c # ds, r))
                 else None)"

text \<open>An optional sign: whether it is a minus, and the rest.\<close>

definition take_sign :: "string \<Rightarrow> bool \<times> string" where
  "take_sign t =
     (case t of
        [] \<Rightarrow> (False, [])
      | c # cs \<Rightarrow> if c = CHR ''-'' then (True, cs)
                 else if c = CHR ''+'' then (False, cs) else (False, t))"

text \<open>Integer digits, fraction digits and the rest: \<open>12.5\<close>, \<open>12.\<close>, \<open>12\<close> or \<open>.5\<close>.\<close>

definition mantissa :: "string \<Rightarrow> (string \<times> string \<times> string) option" where
  "mantissa t =
     (case digitpart t of
        Some (ids, r) \<Rightarrow>
          (if r \<noteq> [] \<and> hd r = CHR ''.''
           then (case digitpart (tl r) of
                   Some (fds, r') \<Rightarrow> Some (ids, fds, r')
                 | None \<Rightarrow> Some (ids, [], tl r))
           else Some (ids, [], r))
      | None \<Rightarrow>
          (if t \<noteq> [] \<and> hd t = CHR ''.''
           then (case digitpart (tl t) of
                   Some (fds, r') \<Rightarrow> Some ([], fds, r')
                 | None \<Rightarrow> None)
           else None))"

definition exponent :: "string \<Rightarrow> int option" where
  "exponent r =
     (if r = [] then Some 0
      else if hd r = CHR ''e'' \<or> hd r = CHR ''E''
      then (case take_sign (tl r) of
              (eneg, r2) \<Rightarrow>
                (case digitpart r2 of
                   Some (eds, rest) \<Rightarrow>
                     if rest = [] then Some (if eneg then - decimal_value eds else decimal_value eds)
                     else None
                 | None \<Rightarrow> None))
      else None)"

definition number :: "string \<Rightarrow> rat option" where
  "number t =
     (case mantissa t of
        None \<Rightarrow> None
      | Some (ids, fds, r) \<Rightarrow>
          (case exponent r of
             None \<Rightarrow> None
           | Some ex \<Rightarrow>
               Some (of_int (decimal_value (ids @ fds)) * pow10 (ex - int (length fds)))))"

text \<open>\<open>float(s)\<close>: the literal is read exactly and rounded once.\<close>

definition py_float :: "string \<Rightarrow> py_error + pyfloat" where
  "py_float s =
     (case take_sign (float_strip s) of
        (neg, t) \<Rightarrow>
          if lower t = ''inf'' \<or> lower t = ''infinity''
          then Inr (if neg then NegInf else PosInf)
          else if lower t = ''nan'' then Inr NaN
          else (case number t of
                  None \<Rightarrow> Inl ValueError
                | Some q \<Rightarrow> Inr (round_double (if neg then - q else q))))"

section \<open>The duration parser\<close>

text \<open>\<open>int(float(t) * k)\<close>, with the exception it may raise.\<close>

definition scaled :: "string \<Rightarrow> rat \<Rightarrow> py_error + int" where
  "scaled t k =
     (case py_float t of
        Inl e \<Rightarrow> Inl e
      | Inr f \<Rightarrow> int_of_float (fmul f (Fin k)))"

text \<open>\<open>int(float(s))\<close>.\<close>

definition int_float :: "string \<Rightarrow> py_error + int" where
  "int_float s = (case py_float s of Inl e \<Rightarrow> Inl e | Inr f \<Rightarrow> int_of_float f)"

text \<open>
  \<open>parse_duration\<close> (src/dayrun.py, lines 90 to 110). The two \<open>try\<close> blocks swallow
  every exception and fall through; \<open>int(s) * 60\<close> is outside any \<open>try\<close>; the last
  \<open>try\<close> turns every exception into \<open>click.BadParameter\<close>, whose message names the
  stripped, lowercased string.
\<close>

definition parse_duration :: "string \<Rightarrow> py_error + int" where
  "parse_duration s0 =
     (let s = lower (strip s0);
          by_h = (if endswith s ''h'' then scaled (butlast s) 3600 else Inl ValueError);
          by_m = (if endswith s ''m'' then scaled (butlast s) 60 else Inl ValueError)
      in case by_h of
           Inr n \<Rightarrow> Inr n
         | Inl _ \<Rightarrow>
             (case by_m of
                Inr n \<Rightarrow> Inr n
              | Inl _ \<Rightarrow>
                  if isdigit s
                  then (case int_of_digits s of Inl e \<Rightarrow> Inl e | Inr n \<Rightarrow> Inr (n * 60))
                  else (case int_float s of
                          Inr n \<Rightarrow> Inr n
                        | Inl _ \<Rightarrow> Inl (BadParameter s))))"

section \<open>Values, files and the outside world\<close>

text \<open>
  The values that \<open>json.loads\<close> returns and \<open>json.dumps\<close> takes. A Python \<open>dict\<close> keeps
  its keys in insertion order: it is a list of pairs with distinct keys.
\<close>

datatype json =
    JNull
  | JBool bool
  | JInt int
  | JStr string
  | JList "json list"
  | JObj "(string \<times> json) list"

text \<open>\<open>d.get(k)\<close> and \<open>d[k] = v\<close> on a \<open>dict\<close>.\<close>

definition dict_get :: "string \<Rightarrow> (string \<times> json) list \<Rightarrow> json option" where
  "dict_get k d = map_of d k"

fun dict_set :: "string \<Rightarrow> json \<Rightarrow> (string \<times> json) list \<Rightarrow> (string \<times> json) list" where
  "dict_set k v [] = [(k, v)]"
| "dict_set k v (p # ps) = (if fst p = k then (k, v) # ps else p # dict_set k v ps)"

text \<open>Python's truth value of a JSON value.\<close>

fun truthy :: "json \<Rightarrow> bool" where
  "truthy JNull = False"
| "truthy (JBool b) = b"
| "truthy (JInt n) = (n \<noteq> 0)"
| "truthy (JStr s) = (s \<noteq> [])"
| "truthy (JList xs) = (xs \<noteq> [])"
| "truthy (JObj d) = (d \<noteq> [])"

text \<open>The truth value of an optional string: \<open>None\<close> and \<open>""\<close> are false.\<close>

definition truthy_str :: "string option \<Rightarrow> bool" where
  "truthy_str x = (case x of None \<Rightarrow> False | Some s \<Rightarrow> s \<noteq> [])"

text \<open>\<open>str(n)\<close> for an integer.\<close>

function nat_digits :: "nat \<Rightarrow> string" where
  "nat_digits n =
     (if n < 10 then [char_of (48 + n)]
      else nat_digits (n div 10) @ [char_of (48 + n mod 10)])"
  by pat_completeness auto
termination
  by (relation "measure id") auto

definition str_int :: "int \<Rightarrow> string" where
  "str_int i = (if i < 0 then CHR ''-'' # nat_digits (nat (- i)) else nat_digits (nat i))"

text \<open>
  What a file holds, as its readers see it. A JSON file is either the text of a value or
  text that \<open>json.loads\<close> rejects; \<open>json.dumps\<close> followed by \<open>json.loads\<close> gives the value
  back. The pid file is a number that \<open>int\<close> reads, or text that it rejects.
\<close>

datatype content = Unparsable | Doc json

datatype pid_text = PidNum int | PidJunk

datatype signal = Sig0 | SIGTERM

type_synonym pane = "string option \<times> string option"

text \<open>The texts of \<open>notification\<close>: the start notice carries the duration in seconds that
  \<open>human_readable_seconds\<close> renders.\<close>

datatype notice = SessionStarted int | SessionFinished | DetachedFinished

text \<open>The lines that \<open>click.echo\<close> prints, one constructor for each format string.\<close>

datatype message =
    MsgTemplateNotFound string
  | MsgInvalidDuration py_error
  | MsgStarting int bool bool
  | MsgDndUnavailable
  | MsgCouldNotOpen string
  | MsgTmuxCreated string
  | MsgTmuxFailed
  | MsgDetached int
  | MsgDetachFailed
  | MsgTimeLeft int int
  | MsgInterrupted
  | MsgCompleted
  | MsgNoSession
  | MsgRunning int
  | MsgStale
  | MsgSignaled int
  | MsgStopFailed int

text \<open>What the program does to the outside world, in the order it does it.\<close>

datatype event =
    Echo message
  | SetDnd bool
  | OpenTarget string
  | CreateTmux string "pane list"
  | RunCommand string
  | Notify notice
  | WriteFile string json
  | ReadFile string
  | Unlink string
  | Spawn int string
  | WritePid int
  | ClearPid
  | HistoryWrite json
  | Kill int signal
  | Sleep int
  | SleepInterrupted

text \<open>
  The state the processes share: the history file \<open>sessions.json\<close>, the marker
  \<open>current_session.pid\<close>, the other files of the directory by name (the handoff files),
  the clock in whole seconds, and the trace of events so far. File operations succeed
  (the \<open>except\<close> branches around them guard faults of the file system, which the store
  does not have).
\<close>

record world =
  sessions_file :: "content option"
  pid_file :: "pid_text option"
  files :: "string \<Rightarrow> content option"
  clock :: int
  trace :: "event list"

text \<open>
  What the outside world answers: the results of \<open>set_dnd\<close>, \<open>open_app_or_url\<close>,
  \<open>create_tmux_session\<close>, whether \<open>platform.system()\<close> is Windows, the pid of the spawned
  monitor (\<open>None\<close> when \<open>Popen\<close> raises), after how many completed sleeps of the countdown
  the user presses Ctrl-C (\<open>None\<close>: never), whether \<open>os.kill(pid, 0)\<close> and
  \<open>os.kill(pid, SIGTERM)\<close> return without raising, and \<open>os.getpid()\<close>.
\<close>

record env =
  dnd_ok :: "bool \<Rightarrow> bool"
  opens :: "string \<Rightarrow> bool"
  tmux_ok :: "string \<Rightarrow> bool"
  windows :: bool
  spawn :: "int option"
  interrupt :: "nat option"
  probe :: "int \<Rightarrow> bool"
  term_ok :: "int \<Rightarrow> bool"
  self_pid :: int

definition emit :: "event \<Rightarrow> world \<Rightarrow> world" where
  "emit e w = w\<lparr>trace := trace w @ [e]\<rparr>"

definition echo :: "message \<Rightarrow> world \<Rightarrow> world" where
  "echo m w = emit (Echo m) w"

text \<open>\<open>time.sleep(n)\<close>.\<close>

definition sleep :: "int \<Rightarrow> world \<Rightarrow> world" where
  "sleep n w = emit (Sleep n) (w\<lparr>clock := clock w + n\<rparr>)"

section \<open>The history store and the tracker\<close>

text \<open>\<open>load_sessions\<close> (lines 72 to 78): whatever value the file holds, or the empty list.\<close>

definition load_sessions :: "world \<Rightarrow> json" where
  "load_sessions w =
     (case sessions_file w of
        None \<Rightarrow> JList []
      | Some Unparsable \<Rightarrow> JList []
      | Some (Doc j) \<Rightarrow> j)"

text \<open>
  \<open>save_session_entry\<close> (lines 81 to 87). \<open>s.insert(0, entry)\<close> is outside the \<open>try\<close>:
  when the file holds a value that is not a list, it raises \<open>AttributeError\<close> and
  nothing is written.
\<close>

definition save_session_entry :: "json \<Rightarrow> world \<Rightarrow> py_error option \<times> world" where
  "save_session_entry entry w =
     (case load_sessions w of
        JList s \<Rightarrow>
          (None, emit (HistoryWrite entry) (w\<lparr>sessions_file := Some (Doc (JList (entry # s)))\<rparr>))
      | _ \<Rightarrow> (Some AttributeError, w))"

text \<open>\<open>write_pid\<close>, \<open>read_pid\<close>, \<open>clear_pid\<close> (lines 305 to 327).\<close>

definition write_pid :: "int \<Rightarrow> world \<Rightarrow> world" where
  "write_pid pid w = emit (WritePid pid) (w\<lparr>pid_file := Some (PidNum pid)\<rparr>)"

definition read_pid :: "world \<Rightarrow> int option" where
  "read_pid w = (case pid_file w of Some (PidNum p) \<Rightarrow> Some p | _ \<Rightarrow> None)"

definition clear_pid :: "world \<Rightarrow> world" where
  "clear_pid w = emit ClearPid (w\<lparr>pid_file := None\<rparr>)"

text \<open>\<open>status\<close> (lines 580 to 593); \<open>not pid\<close> holds for \<open>None\<close> and for 0.\<close>

definition status :: "env \<Rightarrow> world \<Rightarrow> world" where
  "status e w =
     (case read_pid w of
        None \<Rightarrow> echo MsgNoSession w
      | Some pid \<Rightarrow>
          if pid = 0 then echo MsgNoSession w
          else let w1 = emit (Kill pid Sig0) w
               in if probe e pid then echo (MsgRunning pid) w1
                  else clear_pid (echo MsgStale w1))"

text \<open>\<open>stop\<close> (lines 596 to 609).\<close>

definition stop :: "env \<Rightarrow> world \<Rightarrow> world" where
  "stop e w =
     (case read_pid w of
        None \<Rightarrow> echo MsgNoSession w
      | Some pid \<Rightarrow>
          if pid = 0 then echo MsgNoSession w
          else let w1 = emit (Kill pid SIGTERM) w
               in if term_ok e pid then clear_pid (echo (MsgSignaled pid) w1)
                  else clear_pid (echo (MsgStopFailed pid) w1))"

section \<open>The detached monitor\<close>

text \<open>Lines 638 to 643: a file that is missing or does not parse gives the empty record.\<close>

definition read_entry :: "string \<Rightarrow> world \<Rightarrow> json \<times> world" where
  "read_entry entry_file w =
     ((case files w entry_file of Some (Doc j) \<Rightarrow> j | _ \<Rightarrow> JObj []),
      emit (ReadFile entry_file) w)"

text \<open>
  The body of the \<open>try\<close> (lines 648 to 654). \<open>time.sleep\<close> raises \<open>ValueError\<close> on a
  negative length; \<open>entry.get\<close> raises \<open>AttributeError\<close> when the handoff file held a
  value that is not a \<open>dict\<close>; \<open>save_session_entry\<close> may raise too.
\<close>

definition finishing :: "env \<Rightarrow> int \<Rightarrow> json \<Rightarrow> world \<Rightarrow> py_error option \<times> world" where
  "finishing e seconds entry w =
     (if seconds < 0 then (Some ValueError, w)
      else let w1 = emit (Notify DetachedFinished) (sleep seconds w)
           in case entry of
                JObj d \<Rightarrow>
                  (let w2 = (if (case dict_get ''dnd'' d of None \<Rightarrow> False | Some v \<Rightarrow> truthy v)
                             then emit (SetDnd False) w1 else w1)
                   in save_session_entry (JObj (dict_set ''end_ts'' (JInt (clock w2)) d)) w2)
              | _ \<Rightarrow> (Some AttributeError, w1))"

text \<open>The \<open>finally\<close> block (lines 655 to 661); \<open>unlink(missing_ok=True)\<close>.\<close>

definition unlink :: "string \<Rightarrow> world \<Rightarrow> world" where
  "unlink path w = emit (Unlink path) (w\<lparr>files := (files w)(path := None)\<rparr>)"

definition terminated :: "string \<Rightarrow> world \<Rightarrow> world" where
  "terminated entry_file w = clear_pid (unlink entry_file w)"

text \<open>\<open>_monitor\<close> (lines 633 to 661): the exception that leaves it, if any, and the state.\<close>

definition monitor :: "env \<Rightarrow> int \<Rightarrow> string \<Rightarrow> world \<Rightarrow> py_error option \<times> world" where
  "monitor e seconds entry_file w =
     (case read_entry entry_file w of
        (entry, w1) \<Rightarrow>
          (case finishing e seconds entry (write_pid (self_pid e) w1) of
             (r, w2) \<Rightarrow> (r, terminated entry_file w2)))"

section \<open>Starting a session\<close>

text \<open>
  The configuration that \<open>load_config\<close> returns, with the types the program expects of
  it. A template is found when the name maps to a mapping that is not empty.
\<close>

record tmux_cfg =
  tc_session_name :: "string option"
  tc_panes :: "pane list"

record template =
  t_duration :: "string option"
  t_dnd :: "bool option"
  t_apps :: "string list"
  t_cmds :: "string list"
  t_tmux :: "tmux_cfg option"
  t_music :: "string option"

record config =
  default_duration :: string
  dnd_on_start :: bool
  templates :: "string \<Rightarrow> template option"

text \<open>The options of \<open>start\<close> (lines 396 to 406), as click passes them.\<close>

record args =
  opt_template :: "string option"
  opt_duration :: "string option"
  opt_dnd :: "bool option"
  opt_apps :: string
  opt_cmds :: "string list"
  opt_tmux :: bool
  opt_tmux_session :: "string option"
  opt_notify :: bool
  opt_detach :: bool
  opt_log :: bool

text \<open>The local variables of \<open>start\<close> once the options are resolved (lines 419 to 453,
  and \<open>music\<close> of line 490).\<close>

record plan =
  dur_seconds :: int
  dnd_mode :: bool
  apps_list :: "string list"
  cmds_list :: "string list"
  tmux_panes :: "pane list"
  session_name :: string
  music :: "string option"

datatype outcome =
    TemplateMissing
  | DurationInvalid
  | Detached int
  | Interrupted
  | Completed
  | Crashed py_error

text \<open>\<open>s.split(",")\<close>.\<close>

fun split_comma :: "string \<Rightarrow> string list" where
  "split_comma [] = [[]]"
| "split_comma (c # cs) =
     (if c = CHR '','' then [] # split_comma cs
      else (case split_comma cs of [] \<Rightarrow> [[c]] | x # xs \<Rightarrow> (c # x) # xs))"

text \<open>Lines 412 to 417: the template's data, the empty mapping (\<open>None\<close>) when no template is
  asked for, or the name that was not found.\<close>

definition template_data :: "config \<Rightarrow> args \<Rightarrow> string + template option" where
  "template_data cfg a =
     (case opt_template a of
        None \<Rightarrow> Inr None
      | Some name \<Rightarrow>
          if name = [] then Inr None
          else (case templates cfg name of None \<Rightarrow> Inl name | Some t \<Rightarrow> Inr (Some t)))"

text \<open>Line 420: \<open>duration or template_data.get("duration") or cfg.get("default_duration")\<close>.\<close>

definition dur_str :: "config \<Rightarrow> args \<Rightarrow> template option \<Rightarrow> string" where
  "dur_str cfg a td =
     (if truthy_str (opt_duration a) then (case opt_duration a of Some d \<Rightarrow> d | None \<Rightarrow> [])
      else if truthy_str (case td of None \<Rightarrow> None | Some t \<Rightarrow> t_duration t)
           then (case td of Some t \<Rightarrow> (case t_duration t of Some d \<Rightarrow> d | None \<Rightarrow> []) | None \<Rightarrow> [])
           else default_duration cfg)"

text \<open>Lines 428 to 431.\<close>

definition resolve_dnd :: "config \<Rightarrow> args \<Rightarrow> template option \<Rightarrow> bool" where
  "resolve_dnd cfg a td =
     (case opt_dnd a of
        Some b \<Rightarrow> b
      | None \<Rightarrow>
          (case (case td of None \<Rightarrow> None | Some t \<Rightarrow> t_dnd t) of
             Some b \<Rightarrow> b
           | None \<Rightarrow> dnd_on_start cfg))"

text \<open>Lines 434 to 453 and 490; \<open>now\<close> is \<open>int(time.time())\<close>.\<close>

definition resolve :: "config \<Rightarrow> args \<Rightarrow> template option \<Rightarrow> int \<Rightarrow> int \<Rightarrow> plan" where
  "resolve cfg a td secs now =
     (let stamped = ''dayrun_'' @ str_int now;
          tmux_cfg = (if opt_tmux a then (case td of None \<Rightarrow> None | Some t \<Rightarrow> t_tmux t) else None)
      in \<lparr>dur_seconds = secs,
          dnd_mode = resolve_dnd cfg a td,
          apps_list =
            (case td of None \<Rightarrow> [] | Some t \<Rightarrow> t_apps t) @
            (if opt_apps a \<noteq> [] then filter (\<lambda>x. x \<noteq> []) (map strip (split_comma (opt_apps a)))
             else []),
          cmds_list = opt_cmds a @ (case td of None \<Rightarrow> [] | Some t \<Rightarrow> t_cmds t),
          tmux_panes = (case tmux_cfg of None \<Rightarrow> [] | Some c \<Rightarrow> tc_panes c),
          session_name =
            (if truthy_str (opt_tmux_session a)
             then (case opt_tmux_session a of Some n \<Rightarrow> n | None \<Rightarrow> [])
             else (case tmux_cfg of
                     None \<Rightarrow> stamped
                   | Some c \<Rightarrow> (case tc_session_name c of None \<Rightarrow> stamped | Some n \<Rightarrow> n))),
          music = (case td of None \<Rightarrow> None | Some t \<Rightarrow> t_music t)\<rparr>)"

text \<open>One turn of the loop of lines 464 to 467, and the loop of lines 484 to 487 (the pids
  it collects are never used).\<close>

definition open_item :: "env \<Rightarrow> string \<Rightarrow> world \<Rightarrow> world" where
  "open_item e item w =
     (let w1 = emit (OpenTarget item) w
      in if opens e item then w1 else echo (MsgCouldNotOpen item) w1)"

definition run_cmds :: "string list \<Rightarrow> world \<Rightarrow> world" where
  "run_cmds cs w = fold (\<lambda>c. emit (RunCommand c)) cs w"

text \<open>The effects at the start of a session (lines 457 to 497).\<close>

definition begin_session :: "env \<Rightarrow> args \<Rightarrow> plan \<Rightarrow> world \<Rightarrow> world" where
  "begin_session e a p w =
     (let w1 = (if dnd_mode p
                then (let w' = emit (SetDnd True) w
                      in if dnd_ok e True then w' else echo MsgDndUnavailable w')
                else w);
          w2 = fold (open_item e) (apps_list p) w1;
          w3 = (if opt_tmux a \<and> tmux_panes p \<noteq> []
                then (let w' = emit (CreateTmux (session_name p) (tmux_panes p)) w2
                      in if tmux_ok e (session_name p)
                         then echo (MsgTmuxCreated (session_name p)) w'
                         else run_cmds (cmds_list p) (echo MsgTmuxFailed w'))
                else run_cmds (cmds_list p) w2);
          w4 = (if truthy_str (music p)
                then (case music p of Some m \<Rightarrow> emit (OpenTarget m) w3 | None \<Rightarrow> w3)
                else w3)
      in if opt_notify a then emit (Notify (SessionStarted (dur_seconds p))) w4 else w4)"

text \<open>The record of lines 501 to 509.\<close>

definition session_entry :: "args \<Rightarrow> plan \<Rightarrow> int \<Rightarrow> (string \<times> json) list" where
  "session_entry a p start_ts =
     [(''template'',
         if truthy_str (opt_template a)
         then (case opt_template a of Some t \<Rightarrow> JStr t | None \<Rightarrow> JNull) else JNull),
      (''duration_seconds'', JInt (dur_seconds p)),
      (''start_ts'', JInt start_ts),
      (''dnd'', JBool (dnd_mode p)),
      (''apps'', JList (map JStr (apps_list p))),
      (''cmds'', JList (map JStr (cmds_list p))),
      (''tmux_session'', if opt_tmux a then JStr (session_name p) else JNull)]"

definition handoff_name :: "int \<Rightarrow> string" where
  "handoff_name start_ts = ''pending_session_'' @ str_int start_ts @ ''.json''"

text \<open>
  The detached branch (lines 512 to 536). The handoff file is written before
  \<open>detached_pid\<close> is added to the record. The result is the pid when \<open>start\<close> returns
  here, or \<open>None\<close> when control goes on to the countdown: on Windows, and when \<open>Popen\<close> or
  \<open>save_session_entry\<close> raises (the \<open>except\<close> prints and falls through). The record comes
  back as the branch left it.
\<close>

definition detach_session ::
  "env \<Rightarrow> args \<Rightarrow> plan \<Rightarrow> (string \<times> json) list \<Rightarrow> int \<Rightarrow> world
     \<Rightarrow> int option \<times> (string \<times> json) list \<times> world" where
  "detach_session e a p entry start_ts w =
     (let f = handoff_name start_ts;
          w1 = emit (WriteFile f (JObj entry)) (w\<lparr>files := (files w)(f \<mapsto> Doc (JObj entry))\<rparr>)
      in if windows e then (None, entry, w1)
         else (case spawn e of
                 None \<Rightarrow> (None, entry, echo MsgDetachFailed w1)
               | Some pid \<Rightarrow>
                   (let w2 = echo (MsgDetached pid)
                              (write_pid pid (emit (Spawn (dur_seconds p) f) w1))
                    in if opt_log a
                       then (let entry' = dict_set ''detached_pid'' (JInt pid) entry
                             in case save_session_entry (JObj entry') w2 of
                                  (None, w3) \<Rightarrow> (Some pid, entry', w3)
                                | (Some err, w3) \<Rightarrow> (None, entry', echo MsgDetachFailed w3))
                       else (Some pid, entry, w2))))"

text \<open>
  The countdown (lines 539 to 557): whether Ctrl-C ended it, and the state. The first
  argument counts the sleeps that complete before Ctrl-C, if it comes.
\<close>

function countdown :: "nat option \<Rightarrow> int \<Rightarrow> world \<Rightarrow> bool \<times> world" where
  "countdown intr remaining w =
     (if 0 < remaining
      then (let interval = (if 60 < remaining then 10 else 1);
                w1 = (if remaining mod interval = 0
                      then echo (MsgTimeLeft (remaining div 60) (remaining mod 60)) w else w)
            in if intr = Some 0 then (True, emit SleepInterrupted w1)
               else countdown (map_option (\<lambda>k. k - 1) intr) (remaining - interval)
                      (sleep interval w1))
      else (False, w))"
  by pat_completeness auto
termination
  by (relation "measure (\<lambda>(intr, remaining, w). nat remaining)") auto

text \<open>The handler of \<open>KeyboardInterrupt\<close> (lines 558 to 563).\<close>

definition interrupted :: "plan \<Rightarrow> world \<Rightarrow> world" where
  "interrupted p w =
     (let w1 = echo MsgInterrupted w in if dnd_mode p then emit (SetDnd False) w1 else w1)"

text \<open>The end of a foreground session (lines 566 to 577). \<open>save_session_entry\<close> is not in
  a \<open>try\<close> here: its exception leaves \<open>start\<close>.\<close>

definition finish ::
  "args \<Rightarrow> plan \<Rightarrow> (string \<times> json) list \<Rightarrow> world \<Rightarrow> outcome \<times> world" where
  "finish a p entry w =
     (let w1 = (if opt_notify a then emit (Notify SessionFinished) w else w);
          w2 = (if dnd_mode p then emit (SetDnd False) w1 else w1);
          entry' = dict_set ''end_ts'' (JInt (clock w2)) entry
      in if opt_log a
         then (case save_session_entry (JObj entry') w2 of
                 (None, w3) \<Rightarrow> (Completed, echo MsgCompleted w3)
               | (Some err, w3) \<Rightarrow> (Crashed err, w3))
         else (Completed, echo MsgCompleted w2))"

definition foreground ::
  "env \<Rightarrow> args \<Rightarrow> plan \<Rightarrow> (string \<times> json) list \<Rightarrow> world \<Rightarrow> outcome \<times> world" where
  "foreground e a p entry w =
     (case countdown (interrupt e) (dur_seconds p) w of
        (True, w1) \<Rightarrow> (Interrupted, interrupted p w1)
      | (False, w1) \<Rightarrow> finish a p entry w1)"

text \<open>\<open>start\<close> (lines 406 to 577), given the configuration that \<open>load_config\<close> returned.\<close>

definition start :: "env \<Rightarrow> config \<Rightarrow> args \<Rightarrow> world \<Rightarrow> outcome \<times> world" where
  "start e cfg a w =
     (case template_data cfg a of
        Inl name \<Rightarrow> (TemplateMissing, echo (MsgTemplateNotFound name) w)
      | Inr td \<Rightarrow>
          (case parse_duration (dur_str cfg a td) of
             Inl err \<Rightarrow> (DurationInvalid, echo (MsgInvalidDuration err) w)
           | Inr secs \<Rightarrow>
               (let p = resolve cfg a td secs (clock w);
                    w1 = begin_session e a p
                           (echo (MsgStarting secs (dnd_mode p) (opt_detach a)) w);
                    start_ts = clock w1;
                    entry = session_entry a p start_ts
                in if opt_detach a
                   then (case detach_session e a p entry start_ts w1 of
                           (Some pid, entry', w2) \<Rightarrow> (Detached pid, w2)
                         | (None, entry', w2) \<Rightarrow> foreground e a p entry' w2)
                   else foreground e a p entry w1)))"

text \<open>The events that the ordering of a session's effects is about, and the two that mark
  a completed session: the end notification and the write of the history.\<close>

definition key_event :: "event \<Rightarrow> bool" where
  "key_event ev =
     (case ev of SetDnd b \<Rightarrow> True | OpenTarget x \<Rightarrow> True | Notify n \<Rightarrow> True
               | HistoryWrite j \<Rightarrow> True | _ \<Rightarrow> False)"

definition end_event :: "event \<Rightarrow> bool" where
  "end_event ev =
     (case ev of Notify n \<Rightarrow> n = SessionFinished | HistoryWrite j \<Rightarrow> True | _ \<Rightarrow> False)"



section \<open>Example states\<close>

text \<open>A state with no history, no marker and no other file; an outside world where every
  capability answers yes, the monitor gets pid 4242 and no process answers a signal.\<close>

definition idle_world :: world where
  "idle_world = \<lparr>sessions_file = None, pid_file = None, files = (\<lambda>_. None), clock = 1000, trace = []\<rparr>"

definition plain_env :: env where
  "plain_env = \<lparr>dnd_ok = (\<lambda>_. True), opens = (\<lambda>_. True), tmux_ok = (\<lambda>_. True), windows = False,
     spawn = Some 4242, interrupt = None, probe = (\<lambda>_. False), term_ok = (\<lambda>_. False), self_pid = 4242\<rparr>"

text \<open>A handoff file that holds a JSON list instead of a record; a marker for pid 4242.\<close>

definition broken_handoff :: world where
  "broken_handoff = idle_world\<lparr>files := (files idle_world)(''pending_session_1000.json'' \<mapsto> Doc (JList []))\<rparr>"

definition tracked_world :: world where
  "tracked_world = idle_world\<lparr>pid_file := Some (PidNum 4242)\<rparr>"

text \<open>The built-in defaults without a template; a detached, logged session of one minute,
  and the same session in the foreground.\<close>

definition plain_config :: config where
  "plain_config = \<lparr>default_duration = ''25m'', dnd_on_start = True, templates = (\<lambda>_. None)\<rparr>"

definition detached_args :: args where
  "detached_args = \<lparr>opt_template = None, opt_duration = Some ''1'', opt_dnd = None, opt_apps = [],
     opt_cmds = [], opt_tmux = False, opt_tmux_session = None, opt_notify = True,
     opt_detach = True, opt_log = True\<rparr>"

definition foreground_args :: args where
  "foreground_args = detached_args\<lparr>opt_detach := False\<rparr>"



section \<open>Properties of the duration parser\<close>

subsection \<open>Normalisation\<close>

lemma of_char_lower_char:
  "(of_char (lower_char c) :: nat) =
     (if (65 \<le> (of_char c :: nat) \<and> (of_char c :: nat) \<le> 90) \<or>
         (192 \<le> (of_char c :: nat) \<and> (of_char c :: nat) \<le> 222 \<and> (of_char c :: nat) \<noteq> 215)
      then of_char c + 32 else of_char c)"
  by (simp add: lower_char_def Let_def)

lemma is_space_lower_char [simp]: "is_space (lower_char c) = is_space c"
  unfolding is_space_def of_char_lower_char by auto

lemma lower_char_idem [simp]: "lower_char (lower_char c) = lower_char c"
proof -
  have "(of_char (lower_char (lower_char c)) :: nat) = of_char (lower_char c)"
    unfolding of_char_lower_char by auto
  then show ?thesis by (simp only: of_char_eq_iff)
qed

lemma lower_idem [simp]: "lower (lower s) = lower s"
  by (simp add: lower_def)

lemma dropWhile_space_lower:
  "dropWhile is_space (map lower_char s) = map lower_char (dropWhile is_space s)"
  by (induction s) simp_all

lemma strip_lower: "strip (lower s) = lower (strip s)"
  unfolding strip_def lower_def
  by (simp only: dropWhile_space_lower rev_map)

text \<open>Trimming the end of a list keeps its first element.\<close>

lemma trim_end_head:
  assumes "t = [] \<or> \<not> P (hd t)"
  shows "dropWhile P (rev (dropWhile P (rev t))) = rev (dropWhile P (rev t))"
proof (cases "dropWhile P (rev t) = []")
  case True
  show ?thesis unfolding True by simp
next
  case False
  define u where "u = rev (dropWhile P (rev t))"
  have "rev t = takeWhile P (rev t) @ dropWhile P (rev t)" by simp
  then have "t = u @ rev (takeWhile P (rev t))"
    unfolding u_def by (metis rev_append rev_rev_ident)
  moreover have "u \<noteq> []" using False by (simp add: u_def)
  ultimately have "hd u = hd t" and "t \<noteq> []" by (metis hd_append2, metis append_is_Nil_conv)
  with assms have "\<not> P (hd u)" by simp
  with \<open>u \<noteq> []\<close> have "dropWhile P u = u" by (cases u) simp_all
  then show ?thesis by (simp add: u_def)
qed

lemma dropWhile_head: "dropWhile P s = [] \<or> \<not> P (hd (dropWhile P s))"
  by (metis hd_dropWhile)

lemma strip_idem [simp]: "strip (strip s) = strip s"
proof -
  have "dropWhile is_space (strip s) = strip s"
    unfolding strip_def by (rule trim_end_head) (rule dropWhile_head)
  then show ?thesis
    by (simp add: strip_def)
qed

lemma normalise_idem: "lower (strip (lower (strip s))) = lower (strip s)"
  by (simp add: strip_lower)

lemma parse_duration_normal: "parse_duration s = parse_duration (lower (strip s))"
  by (simp add: parse_duration_def normalise_idem)

subsection \<open>Evaluation on the documented inputs\<close>

lemma parse_90m: "parse_duration ''90m'' = Inr 5400"
  by code_simp

lemma parse_1h: "parse_duration ''1h'' = Inr 3600"
  by code_simp

lemma parse_30: "parse_duration ''30'' = Inr 1800"
  by code_simp

lemma parse_45: "parse_duration ''45'' = Inr 2700"
  by code_simp

lemma parse_abc: "parse_duration ''abc'' = Inl (BadParameter ''abc'')"
  by code_simp

lemma normal_90M: "lower (strip ''  90M '') = ''90m''"
  by code_simp

lemma normal_1H: "lower (strip ''1H'') = ''1h''"
  by code_simp

text \<open>
  Claim C10. The parser works on the stripped, lowercased input: parsing a string gives the
  same result (value or error) as parsing its stripped, lowercased form, and so
  \<open>"  90M "\<close> and \<open>"1H"\<close> are read as \<open>"90m"\<close> and \<open>"1h"\<close>.
\<close>

theorem parse_duration_normalises:
  "parse_duration s = parse_duration (lower (strip s))
   \<and> lower (strip ''  90M '') = ''90m'' \<and> parse_duration ''  90M '' = Inr 5400
   \<and> lower (strip ''1H'') = ''1h'' \<and> parse_duration ''1H'' = Inr 3600"
proof -
  have "parse_duration ''  90M '' = Inr 5400"
    using parse_duration_normal [of "''  90M ''"] by (simp only: normal_90M parse_90m)
  moreover have "parse_duration ''1H'' = Inr 3600"
    using parse_duration_normal [of "''1H''"] by (simp only: normal_1H parse_1h)
  ultimately show ?thesis
    using parse_duration_normal [of s] normal_90M normal_1H by blast
qed

text \<open>
  Claim C9, as the code has it. \<open>"90m"\<close>, \<open>"1h"\<close> and \<open>"30"\<close> parse to 5400, 3600 and 1800
  seconds and \<open>"abc"\<close> fails with the parser's own error (no default is substituted);
  \<open>"45"\<close>, a string of digits, is read as minutes like \<open>"30"\<close> and parses to 2700.
\<close>

theorem parse_duration_examples:
  "parse_duration ''90m'' = Inr 5400
   \<and> parse_duration ''1h'' = Inr 3600
   \<and> parse_duration ''30'' = Inr 1800
   \<and> parse_duration ''45'' = Inr 2700
   \<and> parse_duration ''abc'' = Inl (BadParameter ''abc'')"
  using parse_90m parse_1h parse_30 parse_45 parse_abc by blast

text \<open>Claim C9 as stated fails on \<open>"45"\<close>: the result is not 45 seconds.\<close>

theorem parse_duration_45_counterexample:
  "parse_duration ''45'' \<noteq> Inr 45"
  by (simp add: parse_45)

subsection \<open>The sign of the result, and the error\<close>


























text \<open>A superscript two passes \<open>str.isdigit\<close>, and \<open>int\<close> rejects it outside any \<open>try\<close>.\<close>

lemma parse_superscript: "parse_duration [CHR 0xB2] = Inl ValueError"
  by code_simp




section \<open>Properties of the tracker and of the monitor\<close>

lemma emit_simps [simp]:
  "trace (emit ev w) = trace w @ [ev]"
  "sessions_file (emit ev w) = sessions_file w"
  "pid_file (emit ev w) = pid_file w"
  "files (emit ev w) = files w"
  "clock (emit ev w) = clock w"
  by (simp_all add: emit_def)

lemma echo_simps [simp]:
  "trace (echo m w) = trace w @ [Echo m]"
  "sessions_file (echo m w) = sessions_file w"
  "pid_file (echo m w) = pid_file w"
  "files (echo m w) = files w"
  "clock (echo m w) = clock w"
  by (simp_all add: echo_def)

lemma sleep_simps [simp]:
  "trace (sleep n w) = trace w @ [Sleep n]"
  "sessions_file (sleep n w) = sessions_file w"
  "pid_file (sleep n w) = pid_file w"
  "files (sleep n w) = files w"
  "clock (sleep n w) = clock w + n"
  by (simp_all add: sleep_def)

lemma write_pid_simps [simp]:
  "trace (write_pid p w) = trace w @ [WritePid p]"
  "sessions_file (write_pid p w) = sessions_file w"
  "pid_file (write_pid p w) = Some (PidNum p)"
  "files (write_pid p w) = files w"
  "clock (write_pid p w) = clock w"
  by (simp_all add: write_pid_def)

lemma clear_pid_simps [simp]:
  "trace (clear_pid w) = trace w @ [ClearPid]"
  "sessions_file (clear_pid w) = sessions_file w"
  "pid_file (clear_pid w) = None"
  "files (clear_pid w) = files w"
  "clock (clear_pid w) = clock w"
  by (simp_all add: clear_pid_def)

lemma unlink_simps [simp]:
  "trace (unlink f w) = trace w @ [Unlink f]"
  "sessions_file (unlink f w) = sessions_file w"
  "pid_file (unlink f w) = pid_file w"
  "files (unlink f w) f = None"
  "clock (unlink f w) = clock w"
  by (simp_all add: unlink_def)

lemma terminated_simps [simp]:
  "trace (terminated f w) = trace w @ [Unlink f, ClearPid]"
  "sessions_file (terminated f w) = sessions_file w"
  "pid_file (terminated f w) = None"
  "files (terminated f w) f = None"
  by (simp_all add: terminated_def)

lemma load_sessions_cong [simp]:
  "load_sessions (emit ev w) = load_sessions w"
  "load_sessions (echo m w) = load_sessions w"
  "load_sessions (sleep n w) = load_sessions w"
  "load_sessions (write_pid p w) = load_sessions w"
  by (simp_all add: load_sessions_def)

text \<open>Every step only adds to the trace.\<close>

lemma save_session_entry_trace:
  "\<exists>evs. trace (snd (save_session_entry entry w)) = trace w @ evs"
  by (auto simp: save_session_entry_def split: json.splits)

lemma finishing_trace: "\<exists>evs. trace (snd (finishing e n entry w)) = trace w @ evs"
proof -
  have s: "\<And>x w'. \<exists>evs. trace w' = trace w @ evs \<Longrightarrow> \<exists>evs. trace (snd (save_session_entry x w')) = trace w @ evs"
    using save_session_entry_trace by (metis append.assoc)
  show ?thesis
    unfolding finishing_def Let_def
    by (cases entry) (auto intro!: s)
qed

lemma monitor_unfold:
  "monitor e n f w =
     (fst (finishing e n (fst (read_entry f w)) (write_pid (self_pid e) (emit (ReadFile f) w))),
      terminated f (snd (finishing e n (fst (read_entry f w)) (write_pid (self_pid e) (emit (ReadFile f) w)))))"
  by (simp add: monitor_def read_entry_def split: prod.splits)

text \<open>
  Claim C2, as the code has it. When the monitor starts it first reads its handoff file and
  then writes its own pid to the marker, in that order. When the handoff file is missing
  or does not parse, the monitor runs on exactly as it does with the empty record: no
  exception leaves the read.
\<close>

theorem monitor_reads_then_marks:
  "(\<exists>rest. trace (snd (monitor e n f w)) = trace w @ ReadFile f # WritePid (self_pid e) # rest)
   \<and> (files w f = None \<or> files w f = Some Unparsable \<longrightarrow>
        monitor e n f w =
          (case finishing e n (JObj []) (write_pid (self_pid e) (emit (ReadFile f) w)) of
             (r, w') \<Rightarrow> (r, terminated f w')))"
proof
  obtain evs where "trace (snd (finishing e n (fst (read_entry f w)) (write_pid (self_pid e) (emit (ReadFile f) w))))
      = trace (write_pid (self_pid e) (emit (ReadFile f) w)) @ evs"
    using finishing_trace by blast
  then show "\<exists>rest. trace (snd (monitor e n f w)) = trace w @ ReadFile f # WritePid (self_pid e) # rest"
    by (simp add: monitor_unfold)
next
  show "files w f = None \<or> files w f = Some Unparsable \<longrightarrow>
        monitor e n f w =
          (case finishing e n (JObj []) (write_pid (self_pid e) (emit (ReadFile f) w)) of
             (r, w') \<Rightarrow> (r, terminated f w'))"
    by (auto simp: monitor_def read_entry_def)
qed

theorem monitor_reads_then_marks_witness:
  "files idle_world ''pending_session_1000.json'' = None
   \<and> monitor plain_env 5 ''pending_session_1000.json'' idle_world =
       (case finishing plain_env 5 (JObj []) (write_pid 4242 (emit (ReadFile ''pending_session_1000.json'') idle_world)) of
          (r, w') \<Rightarrow> (r, terminated ''pending_session_1000.json'' w'))
   \<and> fst (monitor plain_env 5 ''pending_session_1000.json'' idle_world) = None
   \<and> load_sessions (snd (monitor plain_env 5 ''pending_session_1000.json'' idle_world))
       = JList [JObj [(''end_ts'', JInt 1005)]]"
proof -
  have a: "files idle_world ''pending_session_1000.json'' = None" by (simp add: idle_world_def)
  have b: "self_pid plain_env = 4242" by (simp add: plain_env_def)
  have c: "fst (monitor plain_env 5 ''pending_session_1000.json'' idle_world) = None"
    by (simp add: monitor_unfold read_entry_def finishing_def save_session_entry_def load_sessions_def
          idle_world_def dict_get_def Let_def)
  have d: "load_sessions (snd (monitor plain_env 5 ''pending_session_1000.json'' idle_world))
       = JList [JObj [(''end_ts'', JInt 1005)]]"
    by (simp add: monitor_unfold read_entry_def finishing_def save_session_entry_def load_sessions_def
          idle_world_def dict_get_def Let_def)
  from monitor_reads_then_marks [of plain_env 5 "''pending_session_1000.json''" idle_world] a b c d
  show ?thesis by simp
qed

text \<open>Claim C2 as stated fails: the first two events of a monitor run are the read of the
  handoff file and then the write of the marker, not the reverse.\<close>

theorem monitor_order_counterexample:
  "take 2 (trace (snd (monitor plain_env 5 ''pending_session_1000.json'' idle_world)))
     = [ReadFile ''pending_session_1000.json'', WritePid 4242]"
  by (simp add: monitor_unfold read_entry_def finishing_def save_session_entry_def load_sessions_def
          idle_world_def plain_env_def dict_get_def Let_def)

text \<open>
  Claim C3. Whatever happens in the body of the \<open>try\<close> (also when it raises), the last two
  events of the monitor are the deletion of the handoff file and then the clearing of the
  marker; afterwards neither the file nor the marker exists. Deleting a file that is
  already missing is no error.
\<close>

theorem monitor_cleanup:
  "(\<exists>pre. trace (snd (monitor e n f w)) = pre @ [Unlink f, ClearPid])
   \<and> files (snd (monitor e n f w)) f = None
   \<and> pid_file (snd (monitor e n f w)) = None"
  by (simp add: monitor_unfold)

theorem monitor_cleanup_witness:
  "fst (monitor plain_env 5 ''pending_session_1000.json'' broken_handoff) = Some AttributeError
   \<and> trace (snd (monitor plain_env 5 ''pending_session_1000.json'' broken_handoff))
       = [ReadFile ''pending_session_1000.json'', WritePid 4242, Sleep 5, Notify DetachedFinished,
          Unlink ''pending_session_1000.json'', ClearPid]
   \<and> files (snd (monitor plain_env 5 ''pending_session_1000.json'' broken_handoff)) ''pending_session_1000.json'' = None
   \<and> pid_file (snd (monitor plain_env 5 ''pending_session_1000.json'' broken_handoff)) = None"
  using monitor_cleanup [of plain_env 5 "''pending_session_1000.json''" broken_handoff]
  by (simp add: monitor_unfold read_entry_def finishing_def broken_handoff_def idle_world_def plain_env_def Let_def)

text \<open>
  Claim C4. When the marker holds a pid (a pid is never 0), \<open>stop\<close> sends SIGTERM to it,
  reports success or failure, and then clears the marker, whether the signal was
  delivered or not: no marker is left.
\<close>

theorem stop_clears_marker:
  assumes "pid_file w = Some (PidNum p)" and "p \<noteq> 0"
  shows "trace (stop e w) =
           trace w @ [Kill p SIGTERM, Echo (if term_ok e p then MsgSignaled p else MsgStopFailed p), ClearPid]
         \<and> pid_file (stop e w) = None"
  using assms by (simp add: stop_def read_pid_def Let_def)

theorem stop_clears_marker_witness:
  "pid_file tracked_world = Some (PidNum 4242) \<and> (4242::int) \<noteq> 0 \<and> \<not> term_ok plain_env 4242
   \<and> trace (stop plain_env tracked_world) = [Kill 4242 SIGTERM, Echo (MsgStopFailed 4242), ClearPid]
   \<and> pid_file (stop plain_env tracked_world) = None"
  using stop_clears_marker [of tracked_world 4242 plain_env]
  by (simp add: tracked_world_def idle_world_def plain_env_def)

text \<open>
  Claim C5. Without a marker, \<open>status\<close> reports that there is no session. With a marker
  whose process answers signal 0 it reports the running monitor and leaves the marker;
  when the process does not answer, it reports a stale marker and clears it.
\<close>

theorem status_reports:
  "(pid_file w = None \<longrightarrow>
      trace (status e w) = trace w @ [Echo MsgNoSession] \<and> pid_file (status e w) = None)
   \<and> (pid_file w = Some (PidNum p) \<and> p \<noteq> 0 \<and> probe e p \<longrightarrow>
      trace (status e w) = trace w @ [Kill p Sig0, Echo (MsgRunning p)]
      \<and> pid_file (status e w) = Some (PidNum p))
   \<and> (pid_file w = Some (PidNum p) \<and> p \<noteq> 0 \<and> \<not> probe e p \<longrightarrow>
      trace (status e w) = trace w @ [Kill p Sig0, Echo MsgStale, ClearPid]
      \<and> pid_file (status e w) = None)"
  by (simp add: status_def read_pid_def Let_def)

theorem status_reports_witness:
  "pid_file idle_world = None
   \<and> trace (status plain_env idle_world) = [Echo MsgNoSession]
   \<and> pid_file tracked_world = Some (PidNum 4242) \<and> (4242::int) \<noteq> 0
   \<and> probe (plain_env\<lparr>probe := (\<lambda>_. True)\<rparr>) 4242
   \<and> trace (status (plain_env\<lparr>probe := (\<lambda>_. True)\<rparr>) tracked_world) = [Kill 4242 Sig0, Echo (MsgRunning 4242)]
   \<and> pid_file (status (plain_env\<lparr>probe := (\<lambda>_. True)\<rparr>) tracked_world) = Some (PidNum 4242)
   \<and> \<not> probe plain_env 4242
   \<and> trace (status plain_env tracked_world) = [Kill 4242 Sig0, Echo MsgStale, ClearPid]
   \<and> pid_file (status plain_env tracked_world) = None"
  using status_reports [of idle_world plain_env 4242]
        status_reports [of tracked_world "plain_env\<lparr>probe := (\<lambda>_. True)\<rparr>" 4242]
        status_reports [of tracked_world plain_env 4242]
  by (simp add: tracked_world_def idle_world_def plain_env_def)

section \<open>Properties of a session run\<close>



lemma fold_open_item_keeps [simp]:
  "sessions_file (fold (open_item e) xs w) = sessions_file w"
  "filter end_event (trace (fold (open_item e) xs w)) = filter end_event (trace w)"
  by (induction xs arbitrary: w) (simp_all add: open_item_def Let_def end_event_def)

lemma run_cmds_keeps [simp]:
  "sessions_file (run_cmds cs w) = sessions_file w"
  "filter end_event (trace (run_cmds cs w)) = filter end_event (trace w)"
  "filter key_event (trace (run_cmds cs w)) = filter key_event (trace w)"
  unfolding run_cmds_def
  by (induction cs arbitrary: w) (simp_all add: end_event_def key_event_def)




lemma end_event_simps [simp]:
  "end_event (Echo m) = False"
  "end_event (SetDnd b) = False"
  "end_event (OpenTarget x) = False"
  "end_event (CreateTmux x ps) = False"
  "end_event (RunCommand x) = False"
  "end_event (Notify n) = (n = SessionFinished)"
  "end_event (WriteFile x j) = False"
  "end_event (ReadFile x) = False"
  "end_event (Unlink x) = False"
  "end_event (Spawn k x) = False"
  "end_event (WritePid k) = False"
  "end_event ClearPid = False"
  "end_event (HistoryWrite j) = True"
  "end_event (Kill k sg) = False"
  "end_event (Sleep k) = False"
  "end_event SleepInterrupted = False"
  by (simp_all add: end_event_def)

lemma begin_session_keeps [simp]:
  "sessions_file (begin_session e a p w) = sessions_file w"
  "filter end_event (trace (begin_session e a p w)) = filter end_event (trace w)"
  by (simp_all add: begin_session_def Let_def split: option.splits)


declare countdown.simps [simp del]




lemma dnd_mode_resolve [simp]: "dnd_mode (resolve cfg a td secs now) = resolve_dnd cfg a td"
  by (simp add: resolve_def Let_def)




lemma foreground_run:
  "filter key_event
     (trace (snd (start plain_env plain_config
                    (foreground_args\<lparr>opt_apps := ''notes, https://example.org''\<rparr>) idle_world))) =
     [SetDnd True, OpenTarget ''notes'', OpenTarget ''https://example.org'',
      Notify (SessionStarted 60), Notify SessionFinished, SetDnd False,
      HistoryWrite (JObj [(''template'', JNull), (''duration_seconds'', JInt 60),
        (''start_ts'', JInt 1000), (''dnd'', JBool True),
        (''apps'', JList [JStr ''notes'', JStr ''https://example.org'']), (''cmds'', JList []),
        (''tmux_session'', JNull), (''end_ts'', JInt 1060)])]"
  by code_simp



lemma detached_no_log_history:
  "load_sessions (snd (monitor plain_env 60 ''pending_session_1000.json''
       (snd (start plain_env plain_config (detached_args\<lparr>opt_log := False\<rparr>) idle_world)))) =
     JList
      [JObj [(''template'', JNull), (''duration_seconds'', JInt 60), (''start_ts'', JInt 1000),
             (''dnd'', JBool True), (''apps'', JList []), (''cmds'', JList []),
             (''tmux_session'', JNull), (''end_ts'', JInt 1060)]]"
  by code_simp



lemma interrupted_run_trace:
  "trace (snd (start (plain_env\<lparr>interrupt := Some 2\<rparr>) plain_config foreground_args idle_world)) =
    [Echo (MsgStarting 60 True False), SetDnd True,
        Notify (SessionStarted 60), Echo (MsgTimeLeft 1 0), Sleep 1,
        Echo (MsgTimeLeft 0 59), Sleep 1, Echo (MsgTimeLeft 0 58),
        SleepInterrupted, Echo MsgInterrupted, SetDnd False]"
  by code_simp




end
